theory Spec2Isabelle
  imports Main
begin

section \<open>The Configurator of src/js/main.js\<close>

text \<open>
  The class \<open>Configurator\<close> keeps three private arrays, \<open>#meshes\<close>, \<open>#materials\<close> and
  \<open>#textures\<close>. Its methods mutate the arrays, the objects stored in them and the
  renderable objects of the 3D engine that the entries point to. The embedding passes the
  state explicitly:

  \<^item> A material entry \<open>{material, textureIndex}\<close> is an object with identity: a mesh entry
    holds a reference to it, \<open>haveSameMaterial\<close> compares references with \<open>===\<close>, and
    \<open>setTexture\<close> writes through the reference. Material entries therefore live in a store
    \<open>entries\<close> from addresses to objects; \<open>#materials\<close> is a list of addresses, and the
    object literal of \<open>addMaterial\<close> allocates at the next free address \<open>next_entry\<close>.
  \<^item> A mesh entry \<open>{mesh, materialData}\<close> is created by the object literal of \<open>addMesh\<close>
    and is reachable from its own slot of \<open>#meshes\<close> only, so it is stored by value in the
    list. Its \<open>materialData\<close> is \<open>None\<close> for JavaScript's \<open>undefined\<close>.
  \<^item> A texture entry is never written after its creation and is stored by value.
  \<^item> The renderable meshes and materials belong to the engine. The code touches three of
    their properties: \<open>mesh.material\<close>, \<open>material.diffuseTexture\<close> and
    \<open>material.bumpTexture\<close>. Each is a function from the object's address to the value of
    the property, \<open>None\<close> standing for \<open>null\<close> (or \<open>undefined\<close>). Mesh and material handles
    are references to objects; texture handles may be \<open>null\<close>.
  \<^item> An index is a JavaScript number holding an integer, modelled as \<open>int\<close>. (The
    dropdown handlers of main.js pass the value of an option, the decimal string of such
    a number, which reads the same array element.) An optional argument is an
    \<open>option\<close>, \<open>None\<close> when the caller leaves it out.
  \<^item> Reading a property of \<open>undefined\<close> or \<open>null\<close> throws a \<open>TypeError\<close>. Every method
    returns its outcome together with the state at that moment: what was written before a
    throw stays written.
\<close>

subsection \<open>Data\<close>

type_synonym mesh_ref = nat
type_synonym mat_ref = nat
type_synonym tex_ref = nat
type_synonym entry_ref = nat

record mesh_entry =
  mesh :: mesh_ref
  materialData :: "entry_ref option"

record material_entry =
  material :: mat_ref
  textureIndex :: int

record texture_entry =
  name :: string
  diffuseTexture :: "tex_ref option"
  bumpTexture :: "tex_ref option"

record state =
  meshes :: "mesh_entry list"
  materials :: "entry_ref list"
  textures :: "texture_entry list"
  entries :: "entry_ref \<Rightarrow> material_entry"
  next_entry :: entry_ref
  mesh_material :: "mesh_ref \<Rightarrow> mat_ref option"
  mat_diffuse :: "mat_ref \<Rightarrow> tex_ref option"
  mat_bump :: "mat_ref \<Rightarrow> tex_ref option"

datatype error = TypeError

text \<open>\<open>xs[i]\<close> on a JavaScript array: \<open>undefined\<close> outside the array, no exception.\<close>

definition js_index :: "'a list \<Rightarrow> int \<Rightarrow> 'a option" where
  "js_index xs i = (if 0 \<le> i \<and> i < int (length xs) then Some (xs ! nat i) else None)"

text \<open>The texture entry the field initialiser of \<open>#textures\<close> puts at index 0.\<close>

definition sentinel :: texture_entry where
  "sentinel = \<lparr>name = ''None'', diffuseTexture = None, bumpTexture = None\<rparr>"

text \<open>
  \<open>new Configurator()\<close> in a given heap: the field initialisers set the three arrays; the
  engine's objects are as they were.
\<close>

definition new_Configurator :: "state \<Rightarrow> state" where
  "new_Configurator h = h\<lparr>meshes := [], materials := [], textures := [sentinel]\<rparr>"

subsection \<open>Methods\<close>

text \<open>
  \<open>addMesh(mesh, materialIndex)\<close>: pushes \<open>{mesh, materialData: this.#materials[materialIndex]}\<close>.
  With \<open>materialIndex\<close> left out the lookup is \<open>this.#materials[undefined]\<close>, which is
  \<open>undefined\<close>. Nothing is read from the looked-up value, so the method never throws.
\<close>

definition addMesh :: "mesh_ref \<Rightarrow> int option \<Rightarrow> state \<Rightarrow> (error + unit) \<times> state" where
  "addMesh m materialIndex s =
     (let md = (case materialIndex of None \<Rightarrow> None | Some i \<Rightarrow> js_index (materials s) i)
      in (Inr (), s\<lparr>meshes := meshes s @ [\<lparr>mesh = m, materialData = md\<rparr>]\<rparr>))"

text \<open>
  \<open>addMaterial(material, textureIndex = 0)\<close>: pushes a new object
  \<open>{material, textureIndex}\<close>; the default applies when the argument is left out.
\<close>

definition addMaterial :: "mat_ref \<Rightarrow> int option \<Rightarrow> state \<Rightarrow> (error + unit) \<times> state" where
  "addMaterial mat ti s =
     (let r = next_entry s;
          e = \<lparr>material = mat, textureIndex = (case ti of None \<Rightarrow> 0 | Some t \<Rightarrow> t)\<rparr>
      in (Inr (), s\<lparr>materials := materials s @ [r],
                     entries := (entries s)(r := e),
                     next_entry := Suc r\<rparr>))"

text \<open>\<open>addTexture(name, diffuseTexture = null, bumpTexture = null)\<close>.\<close>

definition addTexture ::
    "string \<Rightarrow> tex_ref option \<Rightarrow> tex_ref option \<Rightarrow> state \<Rightarrow> (error + unit) \<times> state" where
  "addTexture n d b s =
     (Inr (), s\<lparr>textures := textures s @ [\<lparr>name = n, diffuseTexture = d, bumpTexture = b\<rparr>]\<rparr>)"

text \<open>
  \<open>setMaterial(meshIndex, materialIndex)\<close>. The two array reads do not throw. The first
  assignment reads \<open>meshData.mesh\<close> and \<open>materialData.material\<close>, and throws when either
  entry is \<open>undefined\<close>, before anything is written.
\<close>

definition setMaterial :: "int \<Rightarrow> int \<Rightarrow> state \<Rightarrow> (error + int) \<times> state" where
  "setMaterial meshIndex materialIndex s =
     (case js_index (meshes s) meshIndex of
        None \<Rightarrow> (Inl TypeError, s)
      | Some me \<Rightarrow>
          (case js_index (materials s) materialIndex of
             None \<Rightarrow> (Inl TypeError, s)
           | Some r \<Rightarrow>
               let s1 = s\<lparr>mesh_material := (mesh_material s)(mesh me := Some (material (entries s r)))\<rparr>;
                   s2 = s1\<lparr>meshes := (meshes s1)[nat meshIndex := me\<lparr>materialData := Some r\<rparr>]\<rparr>
               in (Inr (textureIndex (entries s2 r)), s2)))"

text \<open>
  \<open>setTexture(meshIndex, textureIndex)\<close>. The first assignment throws when the mesh entry
  is \<open>undefined\<close>, when \<open>meshData.mesh.material\<close> is \<open>null\<close>, or when the texture entry is
  \<open>undefined\<close>. The third assignment throws when \<open>meshData.materialData\<close> is
  \<open>undefined\<close>; the two texture handles are written by then.
\<close>

definition setTexture :: "int \<Rightarrow> int \<Rightarrow> state \<Rightarrow> (error + unit) \<times> state" where
  "setTexture meshIndex ti s =
     (case js_index (meshes s) meshIndex of
        None \<Rightarrow> (Inl TypeError, s)
      | Some me \<Rightarrow>
          (case mesh_material s (mesh me) of
             None \<Rightarrow> (Inl TypeError, s)
           | Some mat \<Rightarrow>
               (case js_index (textures s) ti of
                  None \<Rightarrow> (Inl TypeError, s)
                | Some td \<Rightarrow>
                    let s1 = s\<lparr>mat_diffuse := (mat_diffuse s)(mat := diffuseTexture td)\<rparr>;
                        s2 = s1\<lparr>mat_bump := (mat_bump s1)(mat := bumpTexture td)\<rparr>
                    in (case materialData me of
                          None \<Rightarrow> (Inl TypeError, s2)
                        | Some r \<Rightarrow>
                            (Inr (), s2\<lparr>entries :=
                               (entries s2)(r := (entries s2 r)\<lparr>textureIndex := ti\<rparr>)\<rparr>)))))"

text \<open>\<open>haveSameMaterial(mesh1, mesh2)\<close>: \<open>===\<close> on the two \<open>materialData\<close> references.\<close>

definition haveSameMaterial :: "int \<Rightarrow> int \<Rightarrow> state \<Rightarrow> (error + bool) \<times> state" where
  "haveSameMaterial mesh1 mesh2 s =
     (case js_index (meshes s) mesh1 of
        None \<Rightarrow> (Inl TypeError, s)
      | Some e1 \<Rightarrow>
          (case js_index (meshes s) mesh2 of
             None \<Rightarrow> (Inl TypeError, s)
           | Some e2 \<Rightarrow> (Inr (materialData e1 = materialData e2), s)))"

subsection \<open>Sequences of calls\<close>

datatype call =
    AddMesh mesh_ref "int option"
  | AddMaterial mat_ref "int option"
  | AddTexture string "tex_ref option" "tex_ref option"
  | SetMaterial int int
  | SetTexture int int
  | HaveSameMaterial int int

text \<open>The state a call leaves behind, whether it returns or throws.\<close>

fun exec :: "call \<Rightarrow> state \<Rightarrow> state" where
  "exec (AddMesh m i) s = snd (addMesh m i s)"
| "exec (AddMaterial m t) s = snd (addMaterial m t s)"
| "exec (AddTexture n d b) s = snd (addTexture n d b s)"
| "exec (SetMaterial m i) s = snd (setMaterial m i s)"
| "exec (SetTexture m t) s = snd (setTexture m t s)"
| "exec (HaveSameMaterial a b) s = snd (haveSameMaterial a b s)"

definition run :: "call list \<Rightarrow> state \<Rightarrow> state" where
  "run cs s = fold exec cs s"

fun is_SetTexture :: "call \<Rightarrow> bool" where
  "is_SetTexture (SetTexture m t) = True"
| "is_SetTexture c = False"

text \<open>
  The texture index a call stores on the material entry \<open>r\<close>, if any: only a
  \<open>setTexture\<close> that returns normally for a mesh whose entry references \<open>r\<close> stores one.
\<close>

fun stores :: "entry_ref \<Rightarrow> call \<Rightarrow> state \<Rightarrow> int option" where
  "stores r (SetTexture m' t') s =
     (if fst (setTexture m' t' s) = Inr () \<and>
         (case js_index (meshes s) m' of None \<Rightarrow> False | Some me \<Rightarrow> materialData me = Some r)
      then Some t' else None)"
| "stores r c s = None"

text \<open>
  The texture index last stored on the material entry \<open>r\<close> by the calls \<open>cs\<close> made from
  the state \<open>s\<close>; \<open>t\<close> when none of them stores one.
\<close>

fun remembered :: "entry_ref \<Rightarrow> int \<Rightarrow> call list \<Rightarrow> state \<Rightarrow> int" where
  "remembered r t [] s = t"
| "remembered r t (c # cs) s =
     remembered r (case stores r c s of None \<Rightarrow> t | Some t' \<Rightarrow> t') cs (exec c s)"

subsection \<open>The history of a sequence of calls\<close>

text \<open>
  The specification speaks of the last call that assigned a material to a mesh: the last
  \<open>setMaterial\<close> for that mesh or, when there is none, the \<open>addMesh\<close> that registered it
  with a material index. The definitions below follow these words, not the code: they
  read a sequence of calls and record, for each mesh index, the material index of the
  last assigning call. They count the meshes and materials registered so far, since an
  index is in bounds or not at the moment of the call. A call with an index out of
  bounds assigns nothing.
\<close>

definition in_range :: "int \<Rightarrow> nat \<Rightarrow> bool" where
  "in_range i n = (0 \<le> i \<and> i < int n)"

record history =
  n_meshes :: nat
  n_materials :: nat
  last_index :: "nat \<Rightarrow> int option"

fun note_call :: "call \<Rightarrow> history \<Rightarrow> history" where
  "note_call (AddMesh m None) g = g\<lparr>n_meshes := Suc (n_meshes g)\<rparr>"
| "note_call (AddMesh m (Some i)) g =
     (if in_range i (n_materials g)
      then g\<lparr>n_meshes := Suc (n_meshes g), last_index := (last_index g)(n_meshes g := Some i)\<rparr>
      else g\<lparr>n_meshes := Suc (n_meshes g)\<rparr>)"
| "note_call (AddMaterial m t) g = g\<lparr>n_materials := Suc (n_materials g)\<rparr>"
| "note_call (SetMaterial m i) g =
     (if in_range m (n_meshes g) \<and> in_range i (n_materials g)
      then g\<lparr>last_index := (last_index g)(nat m := Some i)\<rparr>
      else g)"
| "note_call (AddTexture n d b) g = g"
| "note_call (SetTexture m t) g = g"
| "note_call (HaveSameMaterial a b) g = g"

definition no_history :: history where
  "no_history = \<lparr>n_meshes = 0, n_materials = 0, last_index = (\<lambda>_. None)\<rparr>"

definition history_of :: "call list \<Rightarrow> history" where
  "history_of cs = fold note_call cs no_history"

subsection \<open>Invariants\<close>

text \<open>Index 0 of \<open>#textures\<close> resolves to the sentinel.\<close>

definition sentinel_at_0 :: "state \<Rightarrow> bool" where
  "sentinel_at_0 s = (js_index (textures s) 0 = Some sentinel)"

text \<open>
  What connects a state to the history of the calls that led to it: the arrays have the
  lengths the history counts, the material entries in \<open>#materials\<close> are distinct
  allocated objects, and each mesh entry references the material entry of its last
  assigning call (none when there was no such call).
\<close>

definition entry_of :: "state \<Rightarrow> history \<Rightarrow> nat \<Rightarrow> entry_ref option" where
  "entry_of s g k = map_option (\<lambda>i. materials s ! nat i) (last_index g k)"

definition consistent :: "state \<Rightarrow> history \<Rightarrow> bool" where
  "consistent s g \<longleftrightarrow>
     length (meshes s) = n_meshes g \<and>
     length (materials s) = n_materials g \<and>
     distinct (materials s) \<and>
     (\<forall>r \<in> set (materials s). r < next_entry s) \<and>
     (\<forall>k < n_meshes g. materialData (meshes s ! k) = entry_of s g k) \<and>
     (\<forall>k i. last_index g k = Some i \<longrightarrow> k < n_meshes g \<and> in_range i (n_materials g))"

subsection \<open>A concrete scene\<close>

text \<open>
  A heap in which no mesh has a material and no material has a texture, and the calls
  \<open>createScene\<close> of main.js makes: four materials, two textures, and the two meshes of
  the teapot, both registered with material 0. Handles are numbered in the order the
  scene creates them.
\<close>

definition heap0 :: state where
  "heap0 = \<lparr>meshes = [], materials = [], textures = [],
            entries = (\<lambda>_. \<lparr>material = 0, textureIndex = 0\<rparr>), next_entry = 0,
            mesh_material = (\<lambda>_. None), mat_diffuse = (\<lambda>_. None), mat_bump = (\<lambda>_. None)\<rparr>"

definition createScene :: "call list" where
  "createScene =
     [AddMaterial 0 None, AddMaterial 1 None, AddMaterial 2 None, AddMaterial 3 None,
      AddTexture ''Stones'' (Some 0) (Some 1), AddTexture ''Rock'' (Some 2) (Some 3),
      AddMesh 0 (Some 0), AddMesh 1 (Some 0)]"

section \<open>Lemmas\<close>

lemmas eval_defs = run_def createScene_def new_Configurator_def heap0_def addMaterial_def
  addMesh_def addTexture_def setMaterial_def setTexture_def haveSameMaterial_def js_index_def
  sentinel_def in_range_def history_of_def no_history_def

subsection \<open>Array reads\<close>

lemma in_range_nat: "in_range i n \<Longrightarrow> nat i < n"
  by (simp add: in_range_def nat_less_iff)

lemma in_range_append: "in_range i (length xs) \<Longrightarrow> in_range i (length (xs @ ys))"
  by (simp add: in_range_def)

lemma js_index_Some: "in_range i (length xs) \<Longrightarrow> js_index xs i = Some (xs ! nat i)"
  by (simp add: js_index_def in_range_def)

lemma js_index_None: "\<not> in_range i (length xs) \<Longrightarrow> js_index xs i = None"
  by (auto simp add: js_index_def in_range_def)

subsection \<open>The methods on indices in bounds\<close>

lemma setMaterial_ok:
  assumes "in_range m (length (meshes s))" and "in_range i (length (materials s))"
  shows "setMaterial m i s =
    (Inr (textureIndex (entries s (materials s ! nat i))),
     s\<lparr>mesh_material := (mesh_material s)(mesh (meshes s ! nat m) :=
          Some (material (entries s (materials s ! nat i)))),
       meshes := (meshes s)[nat m := (meshes s ! nat m)\<lparr>materialData := Some (materials s ! nat i)\<rparr>]\<rparr>)"
  using assms by (simp add: setMaterial_def Let_def js_index_Some)

lemma setTexture_ok:
  assumes "in_range m (length (meshes s))" and "in_range t (length (textures s))"
    and "mesh_material s (mesh (meshes s ! nat m)) = Some mat"
    and "materialData (meshes s ! nat m) = Some r"
  shows "setTexture m t s =
    (Inr (),
     s\<lparr>mat_diffuse := (mat_diffuse s)(mat := diffuseTexture (textures s ! nat t)),
       mat_bump := (mat_bump s)(mat := bumpTexture (textures s ! nat t)),
       entries := (entries s)(r := (entries s r)\<lparr>textureIndex := t\<rparr>)\<rparr>)"
  using assms by (simp add: setTexture_def Let_def js_index_Some)

text \<open>
  \<open>setTexture\<close> on a registered mesh and a texture index in bounds returns normally
  exactly when the renderable mesh has a material and the mesh entry references a
  material entry. With a renderable material but no material entry, the two handles are
  written before the throw.
\<close>

lemma setTexture_returns_iff:
  assumes "in_range m (length (meshes s))" and "in_range t (length (textures s))"
  shows "fst (setTexture m t s) = Inr () \<longleftrightarrow>
     mesh_material s (mesh (meshes s ! nat m)) \<noteq> None \<and> materialData (meshes s ! nat m) \<noteq> None"
  using assms by (auto simp add: setTexture_def Let_def js_index_Some split: option.splits)

lemma setTexture_partial_write:
  assumes "in_range m (length (meshes s))" and "in_range t (length (textures s))"
    and "mesh_material s (mesh (meshes s ! nat m)) = Some mat"
    and "materialData (meshes s ! nat m) = None"
  shows "setTexture m t s =
    (Inl TypeError,
     s\<lparr>mat_diffuse := (mat_diffuse s)(mat := diffuseTexture (textures s ! nat t)),
       mat_bump := (mat_bump s)(mat := bumpTexture (textures s ! nat t))\<rparr>)"
  using assms by (simp add: setTexture_def Let_def js_index_Some)

lemma haveSameMaterial_ok:
  assumes "a < length (meshes s)" and "b < length (meshes s)"
  shows "haveSameMaterial (int a) (int b) s =
     (Inr (materialData (meshes s ! a) = materialData (meshes s ! b)), s)"
  using assms by (simp add: haveSameMaterial_def js_index_def)

subsection \<open>Every call keeps the state consistent with the history\<close>

lemma consistent_new: "consistent (new_Configurator h) no_history"
  by (simp add: consistent_def new_Configurator_def no_history_def)

lemma consistent_addMesh:
  assumes "consistent s g"
  shows "consistent (snd (addMesh m i s)) (note_call (AddMesh m i) g)"
proof -
  let ?md = "case i of None \<Rightarrow> None | Some j \<Rightarrow> js_index (materials s) j"
  let ?g = "note_call (AddMesh m i) g"
  let ?s = "s\<lparr>meshes := meshes s @ [\<lparr>mesh = m, materialData = ?md\<rparr>]\<rparr>"
  have s': "snd (addMesh m i s) = ?s"
    by (simp add: addMesh_def)
  have len: "length (meshes s) = n_meshes g" "length (materials s) = n_materials g"
    using assms by (simp_all add: consistent_def)
  have old: "\<And>k. k < n_meshes g \<Longrightarrow> materialData (meshes s ! k) = entry_of s g k"
    using assms by (simp add: consistent_def)
  have rng: "\<And>k j. last_index g k = Some j \<Longrightarrow> k < n_meshes g \<and> in_range j (n_materials g)"
    using assms by (simp add: consistent_def)
  have n: "n_meshes ?g = Suc (n_meshes g)" "n_materials ?g = n_materials g"
    by (cases i; simp)+
  have fresh: "last_index g (n_meshes g) = None"
    using rng [of "n_meshes g"] by (cases "last_index g (n_meshes g)") auto
  have li_old: "\<And>k. k < n_meshes g \<Longrightarrow> last_index ?g k = last_index g k"
    by (cases i) simp_all
  have li_new: "map_option (\<lambda>j. materials s ! nat j) (last_index ?g (n_meshes g)) = ?md"
    using fresh len by (cases i) (simp_all add: js_index_Some js_index_None)
  have mesh: "\<forall>k < n_meshes ?g. materialData (meshes ?s ! k) = entry_of ?s ?g k"
  proof (intro allI impI)
    fix k assume "k < n_meshes ?g"
    then consider "k < n_meshes g" | "k = n_meshes g" using n by linarith
    then show "materialData (meshes ?s ! k) = entry_of ?s ?g k"
    proof cases
      case 1
      then show ?thesis using old [OF 1] li_old [OF 1] len
        by (simp add: entry_of_def nth_append)
    next
      case 2
      then show ?thesis using li_new len
        by (simp add: entry_of_def nth_append)
    qed
  qed
  have range': "\<forall>k j. last_index ?g k = Some j \<longrightarrow> k < n_meshes ?g \<and> in_range j (n_materials ?g)"
  proof (intro allI impI)
    fix k j assume a: "last_index ?g k = Some j"
    show "k < n_meshes ?g \<and> in_range j (n_materials ?g)"
    proof (cases "k = n_meshes g")
      case True
      with a fresh show ?thesis by (cases i) (auto split: if_splits)
    next
      case False
      with a have "last_index g k = Some j" by (cases i) (auto split: if_splits)
      from rng [OF this] n show ?thesis by simp
    qed
  qed
  have rest: "length (meshes ?s) = n_meshes ?g" "length (materials ?s) = n_materials ?g"
    "distinct (materials ?s)" "\<forall>r \<in> set (materials ?s). r < next_entry ?s"
    using assms n by (simp_all add: consistent_def)
  show ?thesis
    unfolding s' consistent_def using rest mesh range' by blast
qed

lemma consistent_addMaterial:
  assumes "consistent s g"
  shows "consistent (snd (addMaterial m t s)) (note_call (AddMaterial m t) g)"
proof -
  have "map_option (\<lambda>i. (materials s @ [next_entry s]) ! nat i) (last_index g k) =
      map_option (\<lambda>i. materials s ! nat i) (last_index g k)" for k
  proof (cases "last_index g k")
    case None
    then show ?thesis by simp
  next
    case (Some a)
    from assms have "\<forall>k i. last_index g k = Some i \<longrightarrow> in_range i (length (materials s))"
      by (simp add: consistent_def)
    with Some have "in_range a (length (materials s))" by blast
    then have "nat a < length (materials s)" by (rule in_range_nat)
    with Some show ?thesis by (simp add: nth_append)
  qed
  moreover have "in_range i (n_materials g) \<Longrightarrow> in_range i (Suc (n_materials g))" for i
    by (simp add: in_range_def)
  ultimately show ?thesis
    using assms
    by (fastforce simp add: consistent_def addMaterial_def Let_def entry_of_def)
qed

lemma consistent_setMaterial:
  assumes "consistent s g"
  shows "consistent (snd (setMaterial m i s)) (note_call (SetMaterial m i) g)"
proof (cases "in_range m (n_meshes g) \<and> in_range i (n_materials g)")
  case True
  with assms have "js_index (meshes s) m = Some (meshes s ! nat m)"
    and "js_index (materials s) i = Some (materials s ! nat i)"
    by (simp_all add: js_index_Some consistent_def)
  with assms True show ?thesis
    by (auto simp add: consistent_def setMaterial_def Let_def nth_list_update in_range_def
        entry_of_def)
next
  case False
  with assms have "js_index (meshes s) m = None \<or> js_index (materials s) i = None"
    by (auto simp add: js_index_None consistent_def)
  with assms False show ?thesis
    by (auto simp add: setMaterial_def split: option.splits)
qed

lemma consistent_setTexture:
  assumes "consistent s g"
  shows "consistent (snd (setTexture m t s)) g"
  using assms
  by (auto simp add: consistent_def entry_of_def setTexture_def Let_def split: option.splits)

lemma consistent_exec:
  assumes "consistent s g"
  shows "consistent (exec c s) (note_call c g)"
proof (cases c)
  case (AddMesh m i)
  with assms show ?thesis by (simp add: consistent_addMesh del: note_call.simps)
next
  case (AddMaterial m t)
  with assms show ?thesis by (simp add: consistent_addMaterial del: note_call.simps)
next
  case (AddTexture n d b)
  with assms show ?thesis by (simp add: consistent_def entry_of_def addTexture_def)
next
  case (SetMaterial m i)
  with assms show ?thesis by (simp add: consistent_setMaterial del: note_call.simps)
next
  case (SetTexture m t)
  with assms show ?thesis by (simp add: consistent_setTexture)
next
  case (HaveSameMaterial a b)
  with assms show ?thesis by (simp add: haveSameMaterial_def split: option.splits)
qed

lemma consistent_fold:
  "consistent s g \<Longrightarrow> consistent (fold exec cs s) (fold note_call cs g)"
  by (induction cs arbitrary: s g) (simp_all add: consistent_exec)

lemma consistent_run: "consistent (run cs (new_Configurator h)) (history_of cs)"
  by (simp add: run_def history_of_def consistent_fold consistent_new)

subsection \<open>What a call leaves alone\<close>

lemma exec_materials_prefix: "\<exists>ys. materials (exec c s) = materials s @ ys"
  by (cases c) (auto simp add: addMesh_def addMaterial_def addTexture_def setMaterial_def
      setTexture_def haveSameMaterial_def Let_def split: option.splits)

lemma exec_entries_frame:
  assumes "\<not> is_SetTexture c" "r < next_entry s"
  shows "entries (exec c s) r = entries s r"
  using assms
  by (cases c) (auto simp add: addMesh_def addMaterial_def addTexture_def setMaterial_def
      haveSameMaterial_def Let_def split: option.splits)

lemma exec_next_entry: "next_entry s \<le> next_entry (exec c s)"
  by (cases c) (auto simp add: addMesh_def addMaterial_def addTexture_def setMaterial_def
      setTexture_def haveSameMaterial_def Let_def split: option.splits)

lemma setTexture_textureIndex:
  "textureIndex (entries (snd (setTexture m' t' s)) r) =
     (case stores r (SetTexture m' t') s of None \<Rightarrow> textureIndex (entries s r) | Some u \<Rightarrow> u)"
  by (auto simp add: setTexture_def Let_def split: option.splits)

lemma exec_textureIndex:
  assumes "r < next_entry s"
  shows "textureIndex (entries (exec c s) r) =
     (case stores r c s of None \<Rightarrow> textureIndex (entries s r) | Some u \<Rightarrow> u)"
proof (cases "is_SetTexture c")
  case True
  then obtain m' t' where "c = SetTexture m' t'" by (cases c) simp_all
  then show ?thesis by (simp add: setTexture_textureIndex del: stores.simps)
next
  case False
  then have "stores r c s = None" by (cases c) simp_all
  with False assms show ?thesis by (simp add: exec_entries_frame)
qed

lemma fold_textureIndex:
  "r < next_entry s \<Longrightarrow>
     textureIndex (entries (fold exec cs s) r) = remembered r (textureIndex (entries s r)) cs s"
proof (induction cs arbitrary: s)
  case Nil
  then show ?case by simp
next
  case (Cons c cs)
  have "r < next_entry (exec c s)"
    using Cons.prems exec_next_entry [of s c] by linarith
  then have "textureIndex (entries (fold exec cs (exec c s)) r) =
      remembered r (textureIndex (entries (exec c s) r)) cs (exec c s)"
    by (rule Cons.IH)
  then show ?case
    using Cons.prems by (simp add: exec_textureIndex del: stores.simps)
qed

lemma fold_materials_prefix: "\<exists>ys. materials (fold exec cs s) = materials s @ ys"
proof (induction cs arbitrary: s)
  case Nil
  then show ?case by simp
next
  case (Cons c cs)
  obtain ys where "materials (exec c s) = materials s @ ys"
    using exec_materials_prefix by blast
  moreover obtain zs where "materials (fold exec cs (exec c s)) = materials (exec c s) @ zs"
    using Cons.IH by blast
  ultimately show ?case by simp
qed

lemma consistent_alloc: "consistent s g \<Longrightarrow> r \<in> set (materials s) \<Longrightarrow> r < next_entry s"
  by (simp add: consistent_def)

lemma consistent_assigned:
  assumes "consistent s g" and "last_index g k = Some i"
  shows "k < length (meshes s) \<and> nat i < length (materials s) \<and> 0 \<le> i \<and>
         materialData (meshes s ! k) = Some (materials s ! nat i)"
proof -
  from assms have k: "k < n_meshes g" and i: "in_range i (n_materials g)"
    by (simp_all add: consistent_def)
  from assms(1) k have "materialData (meshes s ! k) = entry_of s g k"
    by (simp add: consistent_def)
  with assms k i show ?thesis
    by (simp add: consistent_def entry_of_def in_range_nat) (simp add: in_range_def)
qed

lemma consistent_unassigned:
  assumes "consistent s g" and "k < n_meshes g" and "last_index g k = None"
  shows "k < length (meshes s) \<and> materialData (meshes s ! k) = None"
  using assms by (simp add: consistent_def entry_of_def)

lemma sentinel_exec: "sentinel_at_0 s \<Longrightarrow> sentinel_at_0 (exec c s)"
  by (cases c) (auto simp add: sentinel_at_0_def js_index_def addMesh_def addMaterial_def
      addTexture_def setMaterial_def setTexture_def haveSameMaterial_def Let_def nth_append
      split: option.splits if_splits)

lemma sentinel_fold: "sentinel_at_0 s \<Longrightarrow> sentinel_at_0 (fold exec cs s)"
  by (induction cs arbitrary: s) (simp_all add: sentinel_exec)

section \<open>The claims\<close>

subsection \<open>C1: a texture set after a material is remembered by the material\<close>

text \<open>
  C1. In any state reached from a new Configurator, for a registered mesh \<open>m\<close>, a valid
  material index \<open>i\<close> and a valid texture index \<open>t\<close>: \<open>setMaterial(m, i)\<close> followed
  immediately by \<open>setTexture(m, t)\<close> returns normally, mesh \<open>m\<close> references the material
  entry at index \<open>i\<close>, and that entry holds \<open>t\<close>. After any further calls the entry is
  still the one at index \<open>i\<close>, and \<open>setMaterial(m', i)\<close> for a registered mesh \<open>m'\<close>
  returns the texture index last stored on it: \<open>t\<close>, unless a \<open>setTexture\<close> in between
  returned normally for a mesh referencing this entry; then the index of the last such
  call. So it returns \<open>t\<close> exactly when no such call stored another index last. Calls
  that throw, \<open>setTexture\<close> for a mesh referencing another material entry, and all other
  methods do not change what is returned.
\<close>

theorem setTexture_remembered:
  assumes reach: "s = run pre (new_Configurator h)"
    and m: "in_range m (length (meshes s))"
    and i: "in_range i (length (materials s))"
    and t: "in_range t (length (textures s))"
    and s2: "s2 = snd (setTexture m t (snd (setMaterial m i s)))"
    and s3: "s3 = run post s2"
    and m': "in_range m' (length (meshes s3))"
  shows "fst (setTexture m t (snd (setMaterial m i s))) = Inr () \<and>
         materialData (meshes s2 ! nat m) = Some (materials s ! nat i) \<and>
         textureIndex (entries s2 (materials s ! nat i)) = t \<and>
         js_index (materials s3) i = Some (materials s ! nat i) \<and>
         fst (setMaterial m' i s3) = Inr (remembered (materials s ! nat i) t post s2) \<and>
         (fst (setMaterial m' i s3) = Inr t \<longleftrightarrow> remembered (materials s ! nat i) t post s2 = t)"
proof -
  let ?r = "materials s ! nat i"
  let ?s1 = "snd (setMaterial m i s)"
  have nm: "nat m < length (meshes s)" and ni: "nat i < length (materials s)"
    using m i by (simp_all add: in_range_nat)
  have cons: "consistent s (history_of pre)"
    unfolding reach by (rule consistent_run)
  have r: "?r < next_entry s"
    using cons ni by (simp add: consistent_alloc)
  have s1: "?s1 = s\<lparr>mesh_material := (mesh_material s)(mesh (meshes s ! nat m) :=
          Some (material (entries s ?r))),
       meshes := (meshes s)[nat m := (meshes s ! nat m)\<lparr>materialData := Some ?r\<rparr>]\<rparr>"
    by (simp add: setMaterial_ok [OF m i])
  have m1: "in_range m (length (meshes ?s1))" and t1: "in_range t (length (textures ?s1))"
    and mat1: "mesh_material ?s1 (mesh (meshes ?s1 ! nat m)) = Some (material (entries s ?r))"
    and md1: "materialData (meshes ?s1 ! nat m) = Some ?r"
    using m t nm by (simp_all add: s1)
  note st = setTexture_ok [OF m1 t1 mat1 md1]
  have ok: "fst (setTexture m t ?s1) = Inr ()"
    by (simp add: st)
  have e2: "textureIndex (entries s2 ?r) = t" and mats2: "materials s2 = materials s"
    and n2: "next_entry s2 = next_entry s"
    and md2: "materialData (meshes s2 ! nat m) = Some ?r"
    unfolding s2 st using nm by (simp_all add: s1)
  have "textureIndex (entries s3 ?r) = remembered ?r (textureIndex (entries s2 ?r)) post s2"
    unfolding s3 run_def using r n2 by (simp add: fold_textureIndex)
  then have e3: "textureIndex (entries s3 ?r) = remembered ?r t post s2"
    by (simp add: e2)
  obtain ys where mats3: "materials s3 = materials s @ ys"
    unfolding s3 run_def using fold_materials_prefix [of post s2] mats2 by auto
  have i3: "in_range i (length (materials s3))"
    unfolding mats3 using i by (rule in_range_append)
  have r3: "materials s3 ! nat i = ?r"
    using ni by (simp add: mats3 nth_append)
  have "fst (setMaterial m' i s3) = Inr (remembered ?r t post s2)"
    using e3 r3 by (simp add: setMaterial_ok [OF m' i3])
  moreover have "js_index (materials s3) i = Some ?r"
    using r3 by (simp add: js_index_Some [OF i3])
  ultimately show ?thesis
    using ok e2 md2 by simp
qed

text \<open>
  After the scene is set up: material 2 on mesh 0, then texture 1 on mesh 0. In between
  come a third mesh without a material, material 3 on mesh 1, texture 2 on mesh 1 (another
  material entry), two \<open>setTexture\<close> that throw (no mesh 5; mesh 2 has no material),
  texture 2 and then texture 1 again on mesh 0, and a fifth material. Material 2 on
  mesh 1 returns 1.
\<close>

theorem setTexture_remembered_witness:
  "fst (setMaterial 1 2
     (run [AddMesh 2 None, SetMaterial 1 3, SetTexture 1 2, SetTexture 5 2, SetTexture 2 2,
           SetTexture 0 2, SetTexture 0 1, AddMaterial 4 None]
       (snd (setTexture 0 1 (snd (setMaterial 0 2 (run createScene (new_Configurator heap0)))))))) = Inr 1 \<and>
   remembered 2 1 [AddMesh 2 None, SetMaterial 1 3, SetTexture 1 2, SetTexture 5 2, SetTexture 2 2,
           SetTexture 0 2, SetTexture 0 1, AddMaterial 4 None]
       (snd (setTexture 0 1 (snd (setMaterial 0 2 (run createScene (new_Configurator heap0)))))) = 1"
  using setTexture_remembered [of "run createScene (new_Configurator heap0)" createScene heap0
      0 2 1 "snd (setTexture 0 1 (snd (setMaterial 0 2 (run createScene (new_Configurator heap0)))))"
      "run [AddMesh 2 None, SetMaterial 1 3, SetTexture 1 2, SetTexture 5 2, SetTexture 2 2,
           SetTexture 0 2, SetTexture 0 1, AddMaterial 4 None]
        (snd (setTexture 0 1 (snd (setMaterial 0 2 (run createScene (new_Configurator heap0))))))"
      "[AddMesh 2 None, SetMaterial 1 3, SetTexture 1 2, SetTexture 5 2, SetTexture 2 2,
           SetTexture 0 2, SetTexture 0 1, AddMaterial 4 None]" 1]
  by (simp add: eval_defs)

text \<open>
  The claim as stated fails when another texture is set on a mesh that references the
  same material entry: with \<open>setTexture(0, 2)\<close> in between, \<open>setMaterial(1, 2)\<close> returns
  2 and not 1.
\<close>

theorem setTexture_overwritten:
  "fst (setTexture 0 1 (snd (setMaterial 0 2 (run createScene (new_Configurator heap0))))) = Inr () \<and>
   fst (setMaterial 1 2
     (run [SetTexture 0 2]
       (snd (setTexture 0 1 (snd (setMaterial 0 2 (run createScene (new_Configurator heap0)))))))) = Inr 2"
  by (simp add: eval_defs)

subsection \<open>C2: \<open>haveSameMaterial\<close> compares the last assigned material indices\<close>

text \<open>
  C2. After any sequence of calls on a new Configurator, for two meshes \<open>a\<close> and \<open>b\<close> that
  were each assigned a material (by \<open>setMaterial\<close>, or by \<open>addMesh\<close> with a material
  index, the indices in bounds), \<open>haveSameMaterial(a, b)\<close> returns true if and only if the
  last assigning call for \<open>a\<close> and the last assigning call for \<open>b\<close> used the same
  material index.
\<close>

theorem haveSameMaterial_last_index:
  assumes "last_index (history_of cs) a = Some i"
    and "last_index (history_of cs) b = Some j"
  shows "fst (haveSameMaterial (int a) (int b) (run cs (new_Configurator h))) = Inr (i = j)"
proof -
  let ?s = "run cs (new_Configurator h)"
  have cons: "consistent ?s (history_of cs)"
    by (rule consistent_run)
  note A = consistent_assigned [OF cons assms(1)]
  note B = consistent_assigned [OF cons assms(2)]
  have "distinct (materials ?s)"
    using cons by (simp add: consistent_def)
  then have "(materials ?s ! nat i = materials ?s ! nat j) = (nat i = nat j)"
    using A B by (simp add: nth_eq_iff_index_eq)
  also have "\<dots> = (i = j)"
    using A B by auto
  finally show ?thesis
    using A B by (simp add: haveSameMaterial_ok)
qed

text \<open>
  Both meshes of the scene start with material 0. With material 3 on both the answer is
  true; with material 3 on mesh 0 and material 2 on mesh 1 it is false.
\<close>

theorem haveSameMaterial_last_index_witness:
  "fst (haveSameMaterial 0 1 (run (createScene @ [SetMaterial 1 2, SetMaterial 0 3, SetMaterial 1 3])
      (new_Configurator heap0))) = Inr True \<and>
   fst (haveSameMaterial 0 1 (run (createScene @ [SetMaterial 1 2, SetMaterial 0 3])
      (new_Configurator heap0))) = Inr False"
  using haveSameMaterial_last_index [of "createScene @ [SetMaterial 1 2, SetMaterial 0 3, SetMaterial 1 3]" 0 3 1 3 heap0]
    haveSameMaterial_last_index [of "createScene @ [SetMaterial 1 2, SetMaterial 0 3]" 0 3 1 2 heap0]
  by (simp add: eval_defs)

subsection \<open>C3: \<open>setMaterial\<close>\<close>

text \<open>
  C3. For a registered mesh index \<open>m\<close> and a material index \<open>i\<close> in bounds,
  \<open>setMaterial(m, i)\<close> returns the texture index stored on the material entry at index
  \<open>i\<close>, makes that entry the material reference of the mesh entry, keeps the entry's
  mesh handle, and assigns the entry's renderable material to \<open>material\<close> of the
  renderable mesh.
\<close>

theorem setMaterial_assigns:
  assumes "in_range m (length (meshes s))" and "in_range i (length (materials s))"
  shows "fst (setMaterial m i s) = Inr (textureIndex (entries s (materials s ! nat i))) \<and>
         materialData (meshes (snd (setMaterial m i s)) ! nat m) = Some (materials s ! nat i) \<and>
         mesh (meshes (snd (setMaterial m i s)) ! nat m) = mesh (meshes s ! nat m) \<and>
         mesh_material (snd (setMaterial m i s)) (mesh (meshes s ! nat m)) =
           Some (material (entries s (materials s ! nat i)))"
proof -
  from assms(1) have "nat m < length (meshes s)"
    by (rule in_range_nat)
  then show ?thesis
    by (simp add: setMaterial_ok [OF assms])
qed

theorem setMaterial_assigns_witness:
  "fst (setMaterial 1 2 (run createScene (new_Configurator heap0))) = Inr 0 \<and>
   materialData (meshes (snd (setMaterial 1 2 (run createScene (new_Configurator heap0)))) ! 1) = Some 2 \<and>
   mesh_material (snd (setMaterial 1 2 (run createScene (new_Configurator heap0)))) 1 = Some 2"
  using setMaterial_assigns [of 1 "run createScene (new_Configurator heap0)" 2]
  by (simp add: eval_defs)

subsection \<open>C4: \<open>setTexture\<close>\<close>

text \<open>
  C4. For a registered mesh index \<open>m\<close> and a texture index \<open>t\<close> in bounds, when the
  renderable mesh has a material attached and the mesh entry references a material
  entry, \<open>setTexture(m, t)\<close> returns normally, assigns the diffuse and bump handles of
  the texture entry at index \<open>t\<close> to the renderable material attached to the mesh, and
  stores \<open>t\<close> as the texture index of the material entry the mesh entry references. It
  changes neither the mesh entries nor the material attached to any mesh.
\<close>

theorem setTexture_applies:
  assumes "in_range m (length (meshes s))" and "in_range t (length (textures s))"
    and "mesh_material s (mesh (meshes s ! nat m)) = Some mat"
    and "materialData (meshes s ! nat m) = Some r"
  shows "fst (setTexture m t s) = Inr () \<and>
         mat_diffuse (snd (setTexture m t s)) mat = diffuseTexture (textures s ! nat t) \<and>
         mat_bump (snd (setTexture m t s)) mat = bumpTexture (textures s ! nat t) \<and>
         textureIndex (entries (snd (setTexture m t s)) r) = t \<and>
         mesh_material (snd (setTexture m t s)) = mesh_material s \<and>
         meshes (snd (setTexture m t s)) = meshes s"
  by (simp add: setTexture_ok [OF assms])

text \<open>Mesh 0 of the scene with material 2, then the texture named Stones (index 1).\<close>

theorem setTexture_applies_witness:
  "fst (setTexture 0 1 (run (createScene @ [SetMaterial 0 2]) (new_Configurator heap0))) = Inr () \<and>
   mat_diffuse (snd (setTexture 0 1 (run (createScene @ [SetMaterial 0 2]) (new_Configurator heap0)))) 2
     = Some 0 \<and>
   mat_bump (snd (setTexture 0 1 (run (createScene @ [SetMaterial 0 2]) (new_Configurator heap0)))) 2
     = Some 1 \<and>
   textureIndex
     (entries (snd (setTexture 0 1 (run (createScene @ [SetMaterial 0 2]) (new_Configurator heap0)))) 2)
     = 1"
  using setTexture_applies [of 0 "run (createScene @ [SetMaterial 0 2]) (new_Configurator heap0)" 1 2 2]
  by (simp add: eval_defs)

text \<open>
  Without these two conditions the claim fails: a mesh registered without a material
  index is a registered mesh, index 0 is a texture index in bounds, and
  \<open>setTexture(0, 0)\<close> throws.
\<close>

theorem setTexture_without_material:
  "in_range 0 (length (meshes (run [AddMesh 0 None] (new_Configurator heap0)))) \<and>
   in_range 0 (length (textures (run [AddMesh 0 None] (new_Configurator heap0)))) \<and>
   setTexture 0 0 (run [AddMesh 0 None] (new_Configurator heap0)) =
     (Inl TypeError, run [AddMesh 0 None] (new_Configurator heap0))"
  by (simp add: eval_defs)

subsection \<open>C5: \<open>addMesh\<close> does not apply the material\<close>

text \<open>
  C5. \<open>addMesh\<close> with a material index in bounds references the material entry from the
  new mesh entry, but leaves \<open>material\<close> of the renderable mesh as it was: after
  \<open>addMaterial(7)\<close> and \<open>addMesh(3, 0)\<close> in a heap where mesh 3 has no material, the
  mesh entry references the entry of material 7 and the renderable mesh still has no
  material. \<open>setMaterial(0, 0)\<close> on the same state does attach material 7.
\<close>

theorem addMesh_material_not_applied:
  "materialData (meshes (run [AddMaterial 7 None, AddMesh 3 (Some 0)] (new_Configurator heap0)) ! 0)
     = Some 0 \<and>
   material (entries (run [AddMaterial 7 None, AddMesh 3 (Some 0)] (new_Configurator heap0)) 0) = 7 \<and>
   mesh_material (run [AddMaterial 7 None, AddMesh 3 (Some 0)] (new_Configurator heap0)) 3 = None \<and>
   mesh_material
     (snd (setMaterial 0 0 (run [AddMaterial 7 None, AddMesh 3 (Some 0)] (new_Configurator heap0)))) 3
     = Some 7"
  by (simp add: eval_defs)

subsection \<open>C6: indices out of range\<close>




subsection \<open>C7: the sentinel texture\<close>

text \<open>
  C7. The texture registry of a new Configurator has at index 0 the sentinel, the entry
  named \<open>None\<close> whose diffuse and bump handles are both \<open>null\<close>; every call (\<open>addMesh\<close>,
  \<open>addMaterial\<close>, \<open>addTexture\<close>, \<open>setMaterial\<close>, \<open>setTexture\<close>, \<open>haveSameMaterial\<close>),
  returning or throwing, keeps it there; so it is there in every reachable state.
\<close>

theorem sentinel_invariant:
  "sentinel_at_0 (new_Configurator h) \<and>
   (sentinel_at_0 s \<longrightarrow> sentinel_at_0 (exec c s)) \<and>
   sentinel_at_0 (run cs (new_Configurator h)) \<and>
   name sentinel = ''None'' \<and> diffuseTexture sentinel = None \<and> bumpTexture sentinel = None"
proof -
  have "sentinel_at_0 (new_Configurator h)"
    by (simp add: sentinel_at_0_def new_Configurator_def js_index_def)
  then show ?thesis
    by (simp add: sentinel_exec sentinel_fold run_def sentinel_def)
qed

theorem sentinel_invariant_witness:
  "sentinel_at_0 (exec (AddTexture ''Rock'' (Some 2) (Some 3)) (new_Configurator heap0)) \<and>
   js_index (textures (run (createScene @ [SetMaterial 0 2, SetTexture 0 1]) (new_Configurator heap0))) 0
     = Some \<lparr>name = ''None'', diffuseTexture = None, bumpTexture = None\<rparr>"
  using sentinel_invariant [of heap0 "new_Configurator heap0" "AddTexture ''Rock'' (Some 2) (Some 3)"
      "createScene @ [SetMaterial 0 2, SetTexture 0 1]"]
  by (simp add: sentinel_at_0_def sentinel_def)

subsection \<open>C8: the texture index of a new material entry\<close>

text \<open>
  C8. \<open>addMaterial\<close> returns normally and appends one new material entry. When the call
  leaves the texture index out, the texture index stored on the new entry is 0; when the
  call supplies one, that index is stored.
\<close>

theorem addMaterial_textureIndex:
  "fst (addMaterial mat ti s) = Inr () \<and>
   materials (snd (addMaterial mat ti s)) = materials s @ [next_entry s] \<and>
   material (entries (snd (addMaterial mat ti s)) (next_entry s)) = mat \<and>
   textureIndex (entries (snd (addMaterial mat None s)) (next_entry s)) = 0 \<and>
   textureIndex (entries (snd (addMaterial mat (Some t) s)) (next_entry s)) = t"
  by (simp add: addMaterial_def Let_def)

theorem addMaterial_textureIndex_witness:
  "textureIndex (entries (run createScene (new_Configurator heap0))
     (materials (run createScene (new_Configurator heap0)) ! 3)) = 0"
  using addMaterial_textureIndex
    [of 3 None "run [AddMaterial 0 None, AddMaterial 1 None, AddMaterial 2 None] (new_Configurator heap0)" 0]
  by (simp add: eval_defs)

text \<open>
  The claim as stated fails for a call that supplies a texture index:
  \<open>addMaterial(5, 2)\<close> stores 2 on the entry it appends.
\<close>

theorem addMaterial_given_index:
  "textureIndex (entries (snd (addMaterial 5 (Some 2) (new_Configurator heap0)))
     (last (materials (snd (addMaterial 5 (Some 2) (new_Configurator heap0)))))) = 2"
  by (simp add: eval_defs)

subsection \<open>C9: two meshes without a material\<close>

text \<open>
  C9. After any sequence of calls on a new Configurator, for two registered meshes that
  were never assigned a material (registered by \<open>addMesh\<close> without a material index, no
  \<open>setMaterial\<close> for them since), \<open>haveSameMaterial\<close> returns true.
\<close>

theorem haveSameMaterial_unassigned:
  assumes "a < n_meshes (history_of cs)" and "b < n_meshes (history_of cs)"
    and "last_index (history_of cs) a = None" and "last_index (history_of cs) b = None"
  shows "fst (haveSameMaterial (int a) (int b) (run cs (new_Configurator h))) = Inr True"
proof -
  have cons: "consistent (run cs (new_Configurator h)) (history_of cs)"
    by (rule consistent_run)
  note A = consistent_unassigned [OF cons assms(1,3)]
  note B = consistent_unassigned [OF cons assms(2,4)]
  show ?thesis using A B by (simp add: haveSameMaterial_ok)
qed

theorem haveSameMaterial_unassigned_witness:
  "fst (haveSameMaterial 0 1 (run [AddMaterial 0 None, AddMesh 0 None, AddMesh 1 None]
      (new_Configurator heap0))) = Inr True"
  using haveSameMaterial_unassigned [of 0 "[AddMaterial 0 None, AddMesh 0 None, AddMesh 1 None]" 1 heap0]
  by (simp add: eval_defs)

subsection \<open>C10: only \<open>setTexture\<close> writes a stored texture index\<close>

text \<open>
  C10. \<open>setMaterial\<close> leaves every material entry and the array of materials as they
  are, whatever its arguments. In a state reached from a new Configurator, a call other
  than \<open>setTexture\<close> leaves every registered material entry at its index and leaves the
  texture index stored on it unchanged.
\<close>

theorem setMaterial_keeps_textureIndex:
  "entries (snd (setMaterial m i s)) = entries s \<and>
   materials (snd (setMaterial m i s)) = materials s \<and>
   (\<not> is_SetTexture c \<longrightarrow>
     (\<forall>k < length (materials (run cs (new_Configurator h))).
        materials (exec c (run cs (new_Configurator h))) ! k =
          materials (run cs (new_Configurator h)) ! k \<and>
        textureIndex (entries (exec c (run cs (new_Configurator h)))
            (materials (run cs (new_Configurator h)) ! k)) =
          textureIndex (entries (run cs (new_Configurator h))
            (materials (run cs (new_Configurator h)) ! k))))"
proof -
  let ?s = "run cs (new_Configurator h)"
  have A: "entries (snd (setMaterial m i s)) = entries s \<and>
           materials (snd (setMaterial m i s)) = materials s"
    by (simp add: setMaterial_def Let_def split: option.splits)
  have cons: "consistent ?s (history_of cs)"
    by (rule consistent_run)
  have B: "materials (exec c ?s) ! k = materials ?s ! k \<and>
           textureIndex (entries (exec c ?s) (materials ?s ! k)) =
           textureIndex (entries ?s (materials ?s ! k))"
    if c: "\<not> is_SetTexture c" and k: "k < length (materials ?s)" for k
  proof -
    obtain ys where "materials (exec c ?s) = materials ?s @ ys"
      using exec_materials_prefix by blast
    with k have "materials (exec c ?s) ! k = materials ?s ! k"
      by (simp add: nth_append)
    moreover have "materials ?s ! k < next_entry ?s"
      using cons k by (simp add: consistent_alloc)
    with c have "entries (exec c ?s) (materials ?s ! k) = entries ?s (materials ?s ! k)"
      by (rule exec_entries_frame)
    ultimately show ?thesis by simp
  qed
  show ?thesis using A B by blast
qed

text \<open>
  A fifth material registered with texture index 1 leaves the texture index of the
  fourth as it was, and \<open>setMaterial(1, 2)\<close> leaves all material entries as they were.
\<close>

theorem setMaterial_keeps_textureIndex_witness:
  "textureIndex (entries (exec (AddMaterial 9 (Some 1)) (run createScene (new_Configurator heap0)))
      (materials (run createScene (new_Configurator heap0)) ! 3)) =
   textureIndex (entries (run createScene (new_Configurator heap0))
      (materials (run createScene (new_Configurator heap0)) ! 3)) \<and>
   entries (snd (setMaterial 1 2 (run createScene (new_Configurator heap0)))) =
     entries (run createScene (new_Configurator heap0))"
proof -
  have "\<not> is_SetTexture (AddMaterial 9 (Some 1))"
    and "3 < length (materials (run createScene (new_Configurator heap0)))"
    by (simp_all add: eval_defs)
  then show ?thesis
    using setMaterial_keeps_textureIndex [of 1 2 "run createScene (new_Configurator heap0)"
        "AddMaterial 9 (Some 1)" createScene heap0]
    by blast
qed

end
